theory Spec2Isabelle
  imports Complex_Main "HOL-Library.AList"
begin

section \<open>The cube viewer: selection state machine, tween engine, camera pose solver\<close>

text \<open>
  A shallow embedding of the interaction core of \<^verbatim>\<open>src/App.jsx\<close>. JavaScript numbers
  are modelled as real numbers; \<^verbatim>\<open>performance.now()\<close> is an explicit argument
  \<open>now\<close>; the mutable refs of the \<^verbatim>\<open>App\<close> component are the fields of one state
  record that every operation takes and returns.
\<close>

subsection \<open>Numeric helpers\<close>

text \<open>\<^verbatim>\<open>clamp(v, min, max) = Math.max(min, Math.min(max, v))\<close>\<close>

definition clamp :: "real \<Rightarrow> real \<Rightarrow> real \<Rightarrow> real" where
  "clamp v lo hi = max lo (min hi v)"




text \<open>
  JavaScript's \<^verbatim>\<open>%\<close> on numbers is the truncated remainder: the quotient is rounded
  towards zero, so the result carries the sign of the dividend.
\<close>

definition js_trunc :: "real \<Rightarrow> int" where
  "js_trunc x = (if 0 \<le> x then \<lfloor>x\<rfloor> else \<lceil>x\<rceil>)"

definition js_rem :: "real \<Rightarrow> real \<Rightarrow> real" where
  "js_rem a b = a - b * of_int (js_trunc (a / b))"

definition normalizeAngle0ToTau :: "real \<Rightarrow> real" where
  "normalizeAngle0ToTau angle =
     (let tau = pi * 2 in js_rem (js_rem angle tau + tau) tau)"

definition normalizeAngleMinusPiToPi :: "real \<Rightarrow> real" where
  "normalizeAngleMinusPiToPi angle =
     (let tau = pi * 2 in js_rem (js_rem (angle + pi) tau + tau) tau - pi)"

definition shortestAngleDelta :: "real \<Rightarrow> real \<Rightarrow> real" where
  "shortestAngleDelta from to =
     (let tau = pi * 2;
          a = normalizeAngle0ToTau from;
          b = normalizeAngle0ToTau to;
          d = b - a;
          d1 = (if d > pi then d - tau else d);
          d2 = (if d1 < - pi then d1 + tau else d1)
      in d2)"

subsection \<open>Scene objects and tunable values\<close>

text \<open>
  A three.js object: its \<open>uuid\<close> stands for its identity (JavaScript's \<^verbatim>\<open>===\<close> on
  objects), \<open>material\<close> lists the uuids of its material or materials (the empty list is a
  missing material), \<open>worldPosition\<close> is what \<^verbatim>\<open>getWorldPosition\<close> returns, and the
  \<open>parent\<close> chain is the one \<^verbatim>\<open>findCubeName\<close> walks.
\<close>

type_synonym vec3 = "real \<times> real \<times> real"

datatype object3d =
  Object3D (uuid: nat) (name: string) (isMesh: bool) (material: "nat list")
    (worldPosition: vec3) (parent: "object3d option")

definition sameObject :: "object3d \<Rightarrow> object3d \<Rightarrow> bool" where
  "sameObject a b = (uuid a = uuid b)"

definition hasMaterial :: "object3d \<Rightarrow> bool" where
  "hasMaterial mesh = (material mesh \<noteq> [])"

datatype camera_profile = Cinematic | BabylonOriginal

datatype camera_mode = Babylon | Free

text \<open>The Leva values the interaction code reads.\<close>

record leva_values =
  cameraProfile :: camera_profile
  cameraMode :: camera_mode
  cameraDistance :: real
  cameraFov :: real
  presetYawOffset :: real
  presetPolarOffset :: real
  babylonClickDistance :: real
  lockTargetToModelCenter :: bool

record pose =
  azimuth :: real
  polar :: real
  distance :: real

text \<open>
  The part of \<^verbatim>\<open>OrbitControls\<close> the code writes. The angles and the distance its
  getters return are the camera's orbit coordinates, kept in the state below.
\<close>

record orbit_controls =
  oc_target :: vec3
  minDistance :: real
  maxDistance :: real
  enabled :: bool

definition SELECTED_CUBE_SCALE :: real where "SELECTED_CUBE_SCALE = 1.28"
definition SELECTED_CUBE_BOUNCE :: real where "SELECTED_CUBE_BOUNCE = 1.38"
definition DIMMED_CUBE_SCALE :: real where "DIMMED_CUBE_SCALE = 0.82"
definition DIMMED_CUBE_BOUNCE :: real where "DIMMED_CUBE_BOUNCE = 0.76"
definition DIMMED_FACE_OPACITY :: real where "DIMMED_FACE_OPACITY = 0.15"
definition CLICK_INTERACTION_FOV :: real where "CLICK_INTERACTION_FOV = 26"

subsection \<open>Tweens\<close>

text \<open>
  The entries of \<^verbatim>\<open>animRef.current\<close>. A tween's \<^verbatim>\<open>material\<close> or \<^verbatim>\<open>obj\<close> reference is
  the uuid of the mesh or object it writes to.
\<close>

record opacity_tween =
  op_material :: nat
  op_from :: real
  op_to :: real
  op_t0 :: real
  op_dur :: real

record scale_tween =
  sc_obj :: nat
  sc_from :: real
  sc_bounce :: real
  sc_to :: real
  sc_t0 :: real
  sc_dur :: real

record center_tween =
  ce_obj :: nat
  ce_fromX :: real
  ce_toX :: real
  ce_fromRotY :: real
  ce_toRotY :: real
  ce_amplitude :: real
  ce_t0 :: real
  ce_dur :: real

text \<open>
  \<^verbatim>\<open>controls.object\<close> is the perspective camera, whose \<^verbatim>\<open>fov\<close> is a number, so
  \<^verbatim>\<open>fromFov\<close> and \<^verbatim>\<open>toFov\<close> are numbers in every camera tween.
\<close>

record camera_tween =
  cm_t0 :: real
  cm_dur :: real
  cm_fromAz :: real
  cm_dAz :: real
  cm_fromPol :: real
  cm_toPol :: real
  cm_fromDist :: real
  cm_toDist :: real
  cm_target :: vec3
  cm_lockDistanceAtEnd :: bool
  cm_fromFov :: real
  cm_toFov :: real

subsection \<open>Gesture records\<close>

record pointer_down =
  pd_active :: bool
  pd_pointerId :: "int option"
  pd_x :: real
  pd_y :: real
  pd_downAt :: real
  pd_maxFromStart :: real
  pd_startAzimuth :: "real option"
  pd_startPolar :: "real option"
  pd_startDistance :: "real option"

record last_pointer_up =
  lp_pointerId :: "int option"
  lp_timeStamp :: real

datatype pointer_type = Touch | Mouse | Pen

record resolved_tap =
  rt_time :: real
  rt_x :: "real option"
  rt_y :: "real option"
  rt_pointerType :: "pointer_type option"
  rt_faceUuid :: "nat option"

subsection \<open>The state of the component\<close>

text \<open>
  \<^verbatim>\<open>interactionRef\<close>, \<^verbatim>\<open>selectedCubeNameRef\<close>, \<^verbatim>\<open>lastSelectionAtRef\<close>, \<^verbatim>\<open>animRef\<close>, the
  gesture refs, and the scene values the tweens write: the opacity and emphasis (glow) of
  a mesh's own material and the uniform scale of an object, each keyed by uuid; the
  camera's orbit coordinates and field of view. The two JavaScript \<^verbatim>\<open>Map\<close>s of tweens
  are association lists in insertion order.
\<close>

record app =
  cubesByName :: "(string \<times> object3d) list"
  allFaceMeshes :: "object3d list"
  faceMeshUUIDs :: "nat set"
  bodyMaterialUUIDs :: "nat set"
  currentlyExpandedCubeName :: "string option"
  currentlyClickedFace :: "object3d option"
  selectedCubeNameRef :: "string option"
  lastSelectionAt :: real
  opacityTweens :: "(nat \<times> opacity_tween) list"
  scaleTweens :: "(nat \<times> scale_tween) list"
  cameraTween :: "camera_tween option"
  centerTween :: "center_tween option"
  cameraAnimLock :: bool
  materialOpacity :: "nat \<Rightarrow> real"
  emphasis :: "nat \<Rightarrow> bool"
  fadePrepared :: "nat set"
  objectScale :: "nat \<Rightarrow> real"
  positionX :: "nat \<Rightarrow> real"
  rotationY :: "nat \<Rightarrow> real"
  camAzimuth :: real
  camPolar :: real
  camDistance :: real
  camFov :: real
  controls :: "orbit_controls option"
  modelCenter :: vec3
  leva :: leva_values
  defaultPose :: pose
  isGuidedRunning :: bool
  pointerDown :: pointer_down
  lastPointerUp :: last_pointer_up
  lastResolvedTap :: resolved_tap
  suppressOrbitSyncUntil :: real

subsection \<open>The per-frame advance (\<^verbatim>\<open>Animator\<close>)\<close>

text \<open>
  \<^verbatim>\<open>t = Math.min(1, (now - tw.t0) / tw.dur)\<close>. Every tween the selection code creates has
  a positive duration (250, 260 or 900 ms); with a zero duration JavaScript's division
  yields an infinity or NaN, which the real numbers do not have, so the statements below
  about sampling assume a positive duration.
\<close>

definition elapsedFraction :: "real \<Rightarrow> real \<Rightarrow> real \<Rightarrow> real" where
  "elapsedFraction now t0 dur = min 1 ((now - t0) / dur)"







subsection \<open>Tween producers\<close>

definition prepareFaceForFade :: "object3d \<Rightarrow> app \<Rightarrow> app" where
  "prepareFaceForFade mesh s =
     (if \<not> hasMaterial mesh then s
      else if uuid mesh \<in> fadePrepared s then s
      else s\<lparr>materialOpacity := (materialOpacity s)(uuid mesh := 1),
             emphasis := (emphasis s)(uuid mesh := False),
             fadePrepared := insert (uuid mesh) (fadePrepared s)\<rparr>)"

definition animateOpacity :: "object3d \<Rightarrow> real \<Rightarrow> real \<Rightarrow> real \<Rightarrow> app \<Rightarrow> app" where
  "animateOpacity mesh to dur now s =
     (if \<not> hasMaterial mesh then s
      else let s1 = prepareFaceForFade mesh s;
               id = uuid mesh
           in s1\<lparr>opacityTweens :=
                   AList.update id
                     \<lparr>op_material = id, op_from = materialOpacity s1 id, op_to = to,
                      op_t0 = now, op_dur = dur\<rparr>
                     (opacityTweens s1)\<rparr>)"

definition animateScale :: "object3d \<Rightarrow> real \<Rightarrow> real \<Rightarrow> real \<Rightarrow> real \<Rightarrow> app \<Rightarrow> app" where
  "animateScale obj to bounce dur now s =
     (let id = uuid obj
      in s\<lparr>scaleTweens :=
             AList.update id
               \<lparr>sc_obj = id, sc_from = objectScale s id, sc_bounce = bounce, sc_to = to,
                sc_t0 = now, sc_dur = dur\<rparr>
               (scaleTweens s)\<rparr>)"

definition setFaceGlow :: "object3d \<Rightarrow> app \<Rightarrow> app" where
  "setFaceGlow mesh s =
     (if \<not> hasMaterial mesh then s
      else let s1 = prepareFaceForFade mesh s
           in s1\<lparr>emphasis := (emphasis s1)(uuid mesh := True)\<rparr>)"

definition removeFaceGlow :: "object3d \<Rightarrow> app \<Rightarrow> app" where
  "removeFaceGlow mesh s =
     (if \<not> hasMaterial mesh then s
      else s\<lparr>emphasis := (emphasis s)(uuid mesh := False)\<rparr>)"

text \<open>\<^verbatim>\<open>resetAllCubes\<close>; closing the side panels is outside the model.\<close>

definition resetAllCubes :: "real \<Rightarrow> app \<Rightarrow> app" where
  "resetAllCubes now s =
     (let s1 = fold (\<lambda>(n, cube). animateScale cube 1.0 0.8 260 now) (cubesByName s) s
      in fold (\<lambda>face s'. removeFaceGlow face (animateOpacity face 1.0 250 now s'))
           (allFaceMeshes s1) s1)"

text \<open>
  \<^verbatim>\<open>animateCameraToPreset(to, durationMs, {toFov})\<close>: without controls it does nothing.
  The start values are what the controls' getters return, the camera's current orbit
  coordinates and field of view.
\<close>

definition animateCameraToPreset :: "pose \<Rightarrow> real \<Rightarrow> real option \<Rightarrow> real \<Rightarrow> app \<Rightarrow> app" where
  "animateCameraToPreset to durationMs optToFov now s =
     (case controls s of
        None \<Rightarrow> s
      | Some c \<Rightarrow>
          let fromAz = camAzimuth s;
              fromPol = camPolar s;
              fromDist = camDistance s;
              fromFov = camFov s;
              forceCenter = (lockTargetToModelCenter (leva s)
                             \<or> cameraProfile (leva s) = BabylonOriginal);
              target = (if forceCenter then modelCenter s else oc_target c);
              c1 = (if lockTargetToModelCenter (leva s) then c\<lparr>oc_target := target\<rparr> else c);
              lockDistanceAtEnd = (cameraMode (leva s) = Babylon
                                   \<or> cameraProfile (leva s) = BabylonOriginal);
              c2 = (if lockDistanceAtEnd
                    then c1\<lparr>minDistance := min fromDist (distance to),
                            maxDistance := max fromDist (distance to)\<rparr>
                    else c1);
              c3 = c2\<lparr>enabled := False\<rparr>
          in s\<lparr>controls := Some c3,
               cameraAnimLock := True,
               cameraTween := Some
                 \<lparr>cm_t0 = now, cm_dur = durationMs, cm_fromAz = fromAz,
                  cm_dAz = shortestAngleDelta fromAz (azimuth to),
                  cm_fromPol = fromPol, cm_toPol = polar to,
                  cm_fromDist = fromDist, cm_toDist = distance to,
                  cm_target = target, cm_lockDistanceAtEnd = lockDistanceAtEnd,
                  cm_fromFov = fromFov,
                  cm_toFov = (case optToFov of Some f \<Rightarrow> f | None \<Rightarrow> fromFov)\<rparr>\<rparr>)"

definition returnToDefault :: "real \<Rightarrow> app \<Rightarrow> app" where
  "returnToDefault now s =
     (let s1 = animateCameraToPreset (defaultPose s) 900 (Some (cameraFov (leva s))) now s;
          s2 = resetAllCubes now s1
      in s2\<lparr>currentlyExpandedCubeName := None,
            currentlyClickedFace := None,
            selectedCubeNameRef := None,
            lastSelectionAt := - 1\<rparr>)"

subsection \<open>Camera pose solver\<close>

text \<open>
  The three.js and ECMAScript operations the solver calls, by their library definitions:
  \<^verbatim>\<open>Vector3.normalize\<close> divides by \<^verbatim>\<open>length() || 1\<close>; \<^verbatim>\<open>Spherical.setFromVector3\<close> sets
  both angles to 0 when the radius is 0, and otherwise \<^verbatim>\<open>theta = atan2(x, z)\<close> and
  \<^verbatim>\<open>phi = acos(clamp(y / radius, -1, 1))\<close>.
\<close>

definition vsub :: "vec3 \<Rightarrow> vec3 \<Rightarrow> vec3" where
  "vsub a b = (case a of (ax, ay, az) \<Rightarrow> case b of (bx, by, bz) \<Rightarrow> (ax - bx, ay - by, az - bz))"

definition lengthSq :: "vec3 \<Rightarrow> real" where
  "lengthSq v = (case v of (x, y, z) \<Rightarrow> x * x + y * y + z * z)"

definition vlength :: "vec3 \<Rightarrow> real" where
  "vlength v = sqrt (lengthSq v)"

definition multiplyScalar :: "vec3 \<Rightarrow> real \<Rightarrow> vec3" where
  "multiplyScalar v k = (case v of (x, y, z) \<Rightarrow> (x * k, y * k, z * k))"

definition normalize :: "vec3 \<Rightarrow> vec3" where
  "normalize v = multiplyScalar v (1 / (if vlength v = 0 then 1 else vlength v))"

definition js_atan2 :: "real \<Rightarrow> real \<Rightarrow> real" where
  "js_atan2 y x =
     (if x > 0 then arctan (y / x)
      else if x < 0 \<and> y \<ge> 0 then arctan (y / x) + pi
      else if x < 0 then arctan (y / x) - pi
      else if y > 0 then pi / 2
      else if y < 0 then - (pi / 2)
      else 0)"

text \<open>The result is \<open>(radius, phi, theta)\<close>.\<close>

definition setFromVector3 :: "vec3 \<Rightarrow> real \<times> real \<times> real" where
  "setFromVector3 v =
     (case v of (x, y, z) \<Rightarrow>
        let radius = sqrt (x * x + y * y + z * z)
        in if radius = 0 then (radius, 0, 0)
           else (radius, arccos (clamp (y / radius) (- 1) 1), js_atan2 x z))"

text \<open>\<^verbatim>\<open>name.charAt(1)\<close> is the empty string when the name is shorter than two characters.\<close>

definition charAt1 :: "string \<Rightarrow> string" where
  "charAt1 n = (if length n > 1 then [n ! 1] else [])"

definition getCameraPoseForFace :: "string \<Rightarrow> app \<Rightarrow> pose" where
  "getCameraPoseForFace n s =
     (let second = charAt1 n;
          ab = (if second = ''1'' then (pi / - 2.7, 1.5628)
                else if second = ''2'' then (pi / - 1.1, 1.5096)
                else if second = ''3'' then ((2 * pi) / 3.2, 1.5352)
                else if second = ''4'' then (pi / 7, 1.5638)
                else if second = ''b'' then (1.5 * pi - 0.2, pi - 0.5)
                else (1.5 * pi + 0.3, 0.3));
          alpha = fst ab;
          beta = snd ab
      in \<lparr>azimuth = normalizeAngleMinusPiToPi (pi / 2 - alpha + presetYawOffset (leva s)),
          polar = beta + presetPolarOffset (leva s),
          distance = (if cameraProfile (leva s) = BabylonOriginal
                      then babylonClickDistance (leva s) else cameraDistance (leva s))\<rparr>)"

definition poseTarget :: "app \<Rightarrow> vec3" where
  "poseTarget s =
     (let forceCenter = (lockTargetToModelCenter (leva s)
                         \<or> cameraProfile (leva s) = BabylonOriginal)
      in if forceCenter then modelCenter s
         else (case controls s of Some c \<Rightarrow> oc_target c | None \<Rightarrow> modelCenter s))"

definition getCameraPoseForMesh :: "object3d \<Rightarrow> real option \<Rightarrow> app \<Rightarrow> pose" where
  "getCameraPoseForMesh mesh distanceOverride s =
     (let target = poseTarget s;
          dist = (case distanceOverride of
                    Some d \<Rightarrow> d
                  | None \<Rightarrow> (if cameraProfile (leva s) = BabylonOriginal
                             then babylonClickDistance (leva s) else cameraDistance (leva s)));
          worldPos = worldPosition mesh;
          dir = vsub worldPos target
      in if lengthSq dir < 1 / 10 ^ 8 then getCameraPoseForFace (name mesh) s
         else (case setFromVector3 (multiplyScalar (normalize dir) dist) of
                 (radius, phi, theta) \<Rightarrow>
                   \<lparr>azimuth = normalizeAngleMinusPiToPi (theta + presetYawOffset (leva s)),
                    polar = clamp (phi + presetPolarOffset (leva s)) 0.001 (pi - 0.001),
                    distance = dist\<rparr>))"

subsection \<open>Selection state machine\<close>

text \<open>\<^verbatim>\<open>findCubeName\<close>: the name of the nearest object, from \<open>obj\<close> upwards, that is a key of \<^verbatim>\<open>cubesByName\<close>.\<close>

fun findCubeName :: "(string \<times> object3d) list \<Rightarrow> object3d \<Rightarrow> string option" where
  "findCubeName cubes (Object3D u n im mat wp par) =
     (if map_of cubes n \<noteq> None then Some n
      else (case par of None \<Rightarrow> None | Some p \<Rightarrow> findCubeName cubes p))"

definition isBodySurface :: "object3d \<Rightarrow> app \<Rightarrow> bool" where
  "isBodySurface clicked s = list_ex (\<lambda>m. m \<in> bodyMaterialUUIDs s) (material clicked)"

definition scaleAllCubes :: "string \<Rightarrow> real \<Rightarrow> app \<Rightarrow> app" where
  "scaleAllCubes cubeName now s =
     fold (\<lambda>(n, cube).
            if n = cubeName
            then animateScale cube SELECTED_CUBE_SCALE SELECTED_CUBE_BOUNCE 260 now
            else animateScale cube DIMMED_CUBE_SCALE DIMMED_CUBE_BOUNCE 260 now)
       (cubesByName s) s"

text \<open>The branch taken for a different face of the selected cube (lines 1273 to 1293).\<close>

definition faceSwitch :: "object3d \<Rightarrow> object3d \<Rightarrow> string \<Rightarrow> real \<Rightarrow> app \<Rightarrow> app" where
  "faceSwitch prev clicked cubeName now s =
     (let s1 = animateOpacity prev 0.2 250 now s;
          s2 = removeFaceGlow prev s1;
          s3 = animateOpacity clicked 1.0 250 now s2;
          s4 = setFaceGlow clicked s3;
          s5 = s4\<lparr>selectedCubeNameRef := Some cubeName,
                  lastSelectionAt := now,
                  currentlyClickedFace := Some clicked\<rparr>;
          s6 = scaleAllCubes cubeName now s5
      in fold (\<lambda>face s'.
                 if sameObject face clicked then s'
                 else removeFaceGlow face (animateOpacity face DIMMED_FACE_OPACITY 250 now s'))
           (allFaceMeshes s6) s6)"

text \<open>The remaining branch, a selection on another cube or the first selection (lines 1295 to 1313).\<close>

definition blockSwitch :: "object3d \<Rightarrow> string \<Rightarrow> real \<Rightarrow> app \<Rightarrow> app" where
  "blockSwitch clicked cubeName now s =
     (let s1 = scaleAllCubes cubeName now s;
          s2 = fold (\<lambda>face s'.
                      let s'' = animateOpacity face
                                  (if sameObject face clicked then 1.0 else DIMMED_FACE_OPACITY)
                                  250 now s'
                      in if sameObject face clicked then setFaceGlow face s''
                         else removeFaceGlow face s'')
                 (allFaceMeshes s1) s1
      in s2\<lparr>currentlyExpandedCubeName := Some cubeName,
            currentlyClickedFace := Some clicked,
            selectedCubeNameRef := Some cubeName,
            lastSelectionAt := now\<rparr>)"

text \<open>
  \<^verbatim>\<open>applyFaceSelection(clicked, {allowHomeReset, distanceOverride})\<close>. A missing \<open>clicked\<close>
  is \<open>None\<close>; an empty cube name is falsy in JavaScript. The side panel updates are
  outside the model.
\<close>

definition applyFaceSelection ::
  "object3d option \<Rightarrow> bool \<Rightarrow> real option \<Rightarrow> real \<Rightarrow> app \<Rightarrow> app" where
  "applyFaceSelection clickedOpt allowHomeReset distanceOverride now s =
     (case clickedOpt of
        None \<Rightarrow> s
      | Some clicked \<Rightarrow>
         (case findCubeName (cubesByName s) clicked of
            None \<Rightarrow> s
          | Some cubeName \<Rightarrow>
             if cubeName = [] then s
             else if isBodySurface clicked s then s
             else
               let currentlyClicked = currentlyClickedFace s;
                   activeSelectedCubeName = selectedCubeNameRef s;
                   hasActiveSelection =
                     (case activeSelectedCubeName of None \<Rightarrow> False | Some n \<Rightarrow> n \<noteq> []);
                   isSameCube = (hasActiveSelection \<and> activeSelectedCubeName = Some cubeName)
               in if allowHomeReset \<and> cubeName = ''top_block_5'' \<and> hasActiveSelection
                  then returnToDefault now s
                  else
                    let isSameFace =
                          (isSameCube \<and>
                           (case currentlyClicked of
                              None \<Rightarrow> False | Some f \<Rightarrow> sameObject f clicked))
                    in if isSameFace
                       then (if now - lastSelectionAt s < 500 then s
                             else returnToDefault now s)
                       else
                         let desiredDistance =
                               (case distanceOverride of
                                  Some d \<Rightarrow> d | None \<Rightarrow> babylonClickDistance (leva s));
                             camPreset = getCameraPoseForMesh clicked (Some desiredDistance) s;
                             s1 = animateCameraToPreset camPreset 900
                                    (Some CLICK_INTERACTION_FOV) now s
                         in (case currentlyClicked of
                               Some prev \<Rightarrow>
                                 if isSameCube then faceSwitch prev clicked cubeName now s1
                                 else blockSwitch clicked cubeName now s1
                             | None \<Rightarrow> blockSwitch clicked cubeName now s1)))"

subsection \<open>Gesture classifier: pointer-up\<close>











subsection \<open>Invariants of the reachable states\<close>

text \<open>
  A JavaScript \<^verbatim>\<open>Map\<close> has one entry per key, every producer stores a tween under the
  uuid of the object the tween writes to, and an opacity tween exists only for a mesh
  whose material \<^verbatim>\<open>prepareFaceForFade\<close> has already cloned.
\<close>

definition tweenRegistryInv :: "app \<Rightarrow> bool" where
  "tweenRegistryInv s =
     (distinct (map fst (opacityTweens s)) \<and>
      list_all (\<lambda>(k, tw). op_material tw = k \<and> k \<in> fadePrepared s) (opacityTweens s) \<and>
      distinct (map fst (scaleTweens s)) \<and>
      list_all (\<lambda>(k, tw). sc_obj tw = k) (scaleTweens s))"

text \<open>The chain \<^verbatim>\<open>findCubeName\<close> walks: the object itself, then its parents.\<close>

fun ancestorChain :: "object3d \<Rightarrow> object3d list" where
  "ancestorChain (Object3D u n im mat wp par) =
     Object3D u n im mat wp par # (case par of None \<Rightarrow> [] | Some p \<Rightarrow> ancestorChain p)"

text \<open>
  The selection is consistent: nothing is selected, or the selected cube name is a key of
  \<^verbatim>\<open>cubesByName\<close>, the recorded face is a mesh, an object of that name is on the face's
  chain, and it is the cube that \<^verbatim>\<open>findCubeName\<close> finds for the face.
\<close>

definition selectionConsistent :: "app \<Rightarrow> bool" where
  "selectionConsistent s =
     (case (selectedCubeNameRef s, currentlyClickedFace s) of
        (None, None) \<Rightarrow> True
      | (Some n, Some f) \<Rightarrow>
          map_of (cubesByName s) n \<noteq> None \<and> isMesh f \<and>
          list_ex (\<lambda>a. name a = n) (ancestorChain f) \<and>
          findCubeName (cubesByName s) f = Some n
      | _ \<Rightarrow> False)"

text \<open>
  What the registry holds for a target after a producer ran at time \<open>now\<close>: a scale tween
  towards \<open>to\<close> through \<open>bounce\<close>, an opacity tween towards \<open>to\<close>, with the default
  durations of 260 and 250 ms.
\<close>

definition scaleTarget :: "real \<Rightarrow> real \<Rightarrow> real \<Rightarrow> nat \<Rightarrow> app \<Rightarrow> bool" where
  "scaleTarget to bounce now i s =
     (\<exists>tw. map_of (scaleTweens s) i = Some tw \<and> sc_to tw = to \<and> sc_bounce tw = bounce \<and>
           sc_t0 tw = now \<and> sc_dur tw = 260)"

definition opacityTarget :: "real \<Rightarrow> real \<Rightarrow> nat \<Rightarrow> app \<Rightarrow> bool" where
  "opacityTarget to now i s =
     (\<exists>tw. map_of (opacityTweens s) i = Some tw \<and> op_to tw = to \<and> op_t0 tw = now \<and>
           op_dur tw = 250)"

text \<open>
  Frame condition of the tween producers: the second state differs from the first at most
  in the tween registry, the controls, and the opacity and emphasis bookkeeping.
\<close>

definition eraseAnimated :: "app \<Rightarrow> app" where
  "eraseAnimated s =
     s\<lparr>opacityTweens := [], scaleTweens := [], cameraTween := None, cameraAnimLock := False,
       materialOpacity := (\<lambda>_. 0), emphasis := (\<lambda>_. False), fadePrepared := {},
       controls := None\<rparr>"

definition onlyAnimated :: "app \<Rightarrow> app \<Rightarrow> bool" where
  "onlyAnimated s s' = (eraseAnimated s' = eraseAnimated s)"

subsection \<open>A small scene for the worked examples\<close>

definition cubeOne :: object3d where
  "cubeOne = Object3D 1 ''btm_block_1'' False [] (2, 0, 0) None"


definition faceA :: object3d where
  "faceA = Object3D 11 ''face_1a'' True [101] (3, 0, 0) (Some cubeOne)"

definition faceB :: object3d where
  "faceB = Object3D 12 ''face_1b'' True [102] (2, 1, 0) (Some cubeOne)"

definition cubeTwo :: object3d where
  "cubeTwo = Object3D 2 ''mid_block_2'' False [] (0, 0, 2) None"

definition faceC :: object3d where
  "faceC = Object3D 21 ''face_2a'' True [103] (0, 0, 3) (Some cubeTwo)"

definition cubeHome :: object3d where
  "cubeHome = Object3D 5 ''top_block_5'' False [] (0, 2, 0) None"

definition faceHome :: object3d where
  "faceHome = Object3D 51 ''face_home'' True [104] (0, 3, 0) (Some cubeHome)"

definition exampleLeva :: leva_values where
  "exampleLeva =
     \<lparr>cameraProfile = Cinematic, cameraMode = Babylon, cameraDistance = 20, cameraFov = 45,
      presetYawOffset = 0, presetPolarOffset = 0, babylonClickDistance = 18,
      lockTargetToModelCenter = True\<rparr>"

text \<open>The state after the model is ready and the intro has finished: nothing selected, no tween.\<close>

definition exampleApp :: app where
  "exampleApp =
     \<lparr>cubesByName = [(''btm_block_1'', cubeOne), (''mid_block_2'', cubeTwo),
                     (''top_block_5'', cubeHome)],
      allFaceMeshes = [faceA, faceB, faceC, faceHome],
      faceMeshUUIDs = {11, 12, 21, 51},
      bodyMaterialUUIDs = {100},
      currentlyExpandedCubeName = None,
      currentlyClickedFace = None,
      selectedCubeNameRef = None,
      lastSelectionAt = - 1,
      opacityTweens = [],
      scaleTweens = [],
      cameraTween = None,
      centerTween = None,
      cameraAnimLock = False,
      materialOpacity = (\<lambda>_. 1),
      emphasis = (\<lambda>_. False),
      fadePrepared = {11, 12, 21, 51},
      objectScale = (\<lambda>_. 1),
      positionX = (\<lambda>_. 0),
      rotationY = (\<lambda>_. 0),
      camAzimuth = - 2.983,
      camPolar = 2.051,
      camDistance = 20,
      camFov = 45,
      controls = Some \<lparr>oc_target = (0, 0, 0), minDistance = 20, maxDistance = 20,
                       enabled = True\<rparr>,
      modelCenter = (0, 0, 0),
      leva = exampleLeva,
      defaultPose = \<lparr>azimuth = - 2.983, polar = 2.051, distance = 20\<rparr>,
      isGuidedRunning = False,
      pointerDown = \<lparr>pd_active = False, pd_pointerId = None, pd_x = 0, pd_y = 0,
                     pd_downAt = - 1, pd_maxFromStart = 0, pd_startAzimuth = None,
                     pd_startPolar = None, pd_startDistance = None\<rparr>,
      lastPointerUp = \<lparr>lp_pointerId = None, lp_timeStamp = - 1\<rparr>,
      lastResolvedTap = \<lparr>rt_time = - 1, rt_x = None, rt_y = None, rt_pointerType = None,
                         rt_faceUuid = None\<rparr>,
      suppressOrbitSyncUntil = 0\<rparr>"

text \<open>The same scene with \<open>faceA\<close> of \<^verbatim>\<open>btm_block_1\<close> selected at time 1000 and all tweens finished.\<close>

definition exampleSelected :: app where
  "exampleSelected =
     exampleApp
       \<lparr>currentlyExpandedCubeName := Some ''btm_block_1'',
        currentlyClickedFace := Some faceA,
        selectedCubeNameRef := Some ''btm_block_1'',
        lastSelectionAt := 1000,
        materialOpacity := (\<lambda>i. if i = 11 then 1 else 0.15),
        emphasis := (\<lambda>i. i = 11),
        objectScale := (\<lambda>i. if i = 1 then 1.28 else 0.82),
        camFov := 26\<rparr>"




section \<open>Properties\<close>

subsection \<open>Angles\<close>

lemma js_rem_nonneg:
  assumes "0 \<le> a" "0 < b"
  shows "0 \<le> js_rem a b \<and> js_rem a b < b"
proof -
  have q: "0 \<le> a / b" using assms by simp
  have eq: "js_rem a b = b * (a / b - of_int \<lfloor>a / b\<rfloor>)"
    using assms q by (simp add: js_rem_def js_trunc_def algebra_simps)
  have "0 \<le> a / b - of_int \<lfloor>a / b\<rfloor>" "a / b - of_int \<lfloor>a / b\<rfloor> < 1"
    by linarith+
  then show ?thesis unfolding eq using assms(2)
    by (simp add: mult_less_cancel_left2 [where c = b])
qed

lemma js_rem_neg:
  assumes "a < 0" "0 < b"
  shows "- b < js_rem a b \<and> js_rem a b \<le> 0"
proof -
  have q: "a / b < 0" using assms by (simp add: divide_neg_pos)
  have eq: "js_rem a b = b * (a / b - of_int \<lceil>a / b\<rceil>)"
    using assms q by (simp add: js_rem_def js_trunc_def algebra_simps)
  have "a / b - of_int \<lceil>a / b\<rceil> \<le> 0" "- 1 < a / b - of_int \<lceil>a / b\<rceil>"
    by linarith+
  then show ?thesis unfolding eq using assms(2)
    by (simp add: mult_le_0_iff) (smt (verit) mult_less_cancel_left2 mult_minus_right)
qed

lemma js_rem_shift: "\<exists>k::int. js_rem a b = a - b * of_int k"
  by (auto simp: js_rem_def)

lemma normalizeAngle0ToTau_range:
  "0 \<le> normalizeAngle0ToTau x \<and> normalizeAngle0ToTau x < 2 * pi"
proof -
  have tp: "0 < pi * 2" by simp
  have "- (pi * 2) < js_rem x (pi * 2)"
    using js_rem_neg [of x "pi * 2"] js_rem_nonneg [of x "pi * 2"] tp
    by (cases "x < 0") auto
  then have "0 \<le> js_rem x (pi * 2) + pi * 2" by simp
  from js_rem_nonneg [OF this tp] show ?thesis
    by (simp add: normalizeAngle0ToTau_def Let_def mult.commute)
qed

lemma normalizeAngle0ToTau_shift:
  "\<exists>k::int. normalizeAngle0ToTau x = x + 2 * pi * of_int k"
proof -
  obtain k1 :: int where k1: "js_rem x (pi * 2) = x - pi * 2 * of_int k1"
    using js_rem_shift by blast
  obtain k2 :: int where k2: "js_rem (js_rem x (pi * 2) + pi * 2) (pi * 2)
      = js_rem x (pi * 2) + pi * 2 - pi * 2 * of_int k2"
    using js_rem_shift by blast
  have "normalizeAngle0ToTau x = js_rem x (pi * 2) + pi * 2 - pi * 2 * of_int k2"
    using k2 by (simp add: normalizeAngle0ToTau_def Let_def)
  also have "\<dots> = x + 2 * pi * of_int (1 - k1 - k2)"
    by (simp add: k1 algebra_simps)
  finally show ?thesis by blast
qed

lemma angle_unique:
  fixes y1 y2 :: real and k :: int
  assumes "0 \<le> y1" "y1 < 2 * pi" "0 \<le> y2" "y2 < 2 * pi" "y1 = y2 + 2 * pi * of_int k"
  shows "y1 = y2"
proof -
  have a: "k < 1"
  proof (rule ccontr)
    assume "\<not> k < 1"
    then have "1 \<le> (of_int k :: real)" by simp
    then have "2 * pi * 1 \<le> 2 * pi * of_int k" by (intro mult_left_mono) simp_all
    with assms show False by simp
  qed
  have b: "- 1 < k"
  proof (rule ccontr)
    assume "\<not> - 1 < k"
    then have "(of_int k :: real) \<le> - 1" by linarith
    then have "2 * pi * of_int k \<le> 2 * pi * (- 1)" by (intro mult_left_mono) simp_all
    with assms show False by simp
  qed
  from a b have "k = 0" by simp
  with assms show ?thesis by simp
qed

lemma normalizeAngle0ToTau_cong:
  "normalizeAngle0ToTau (x + 2 * pi * of_int k) = normalizeAngle0ToTau x"
proof -
  obtain k1 :: int where k1: "normalizeAngle0ToTau (x + 2 * pi * of_int k) = x + 2 * pi * of_int k + 2 * pi * of_int k1"
    using normalizeAngle0ToTau_shift by blast
  obtain k2 :: int where k2: "normalizeAngle0ToTau x = x + 2 * pi * of_int k2"
    using normalizeAngle0ToTau_shift by blast
  have "normalizeAngle0ToTau (x + 2 * pi * of_int k) = normalizeAngle0ToTau x + 2 * pi * of_int (k + k1 - k2)"
    unfolding k1 k2 by (simp add: algebra_simps)
  then show ?thesis
    using angle_unique normalizeAngle0ToTau_range by blast
qed

lemma shortestAngleDelta_bounds_cong:
  "- pi \<le> shortestAngleDelta from to \<and> shortestAngleDelta from to \<le> pi \<and>
   normalizeAngle0ToTau (from + shortestAngleDelta from to) = normalizeAngle0ToTau to"
proof -
  define a where "a = normalizeAngle0ToTau from"
  define b where "b = normalizeAngle0ToTau to"
  have ra: "0 \<le> a" "a < 2 * pi" and rb: "0 \<le> b" "b < 2 * pi"
    using normalizeAngle0ToTau_range by (simp_all add: a_def b_def)
  obtain ka :: int where ka: "a = from + 2 * pi * of_int ka"
    using normalizeAngle0ToTau_shift a_def by blast
  obtain kb :: int where kb: "b = to + 2 * pi * of_int kb"
    using normalizeAngle0ToTau_shift b_def by blast
  have d: "shortestAngleDelta from to =
      (if b - a > pi then b - a - 2 * pi else if b - a < - pi then b - a + 2 * pi else b - a)"
    using ra rb by (auto simp: shortestAngleDelta_def Let_def a_def b_def)
  have rng: "- pi \<le> shortestAngleDelta from to \<and> shortestAngleDelta from to \<le> pi"
    unfolding d using ra rb by auto
  obtain m :: int where m: "shortestAngleDelta from to = b - a + 2 * pi * of_int m"
  proof (cases "b - a > pi")
    case True
    then have "shortestAngleDelta from to = b - a + 2 * pi * of_int (- 1)" unfolding d by simp
    then show ?thesis using that by blast
  next
    case False
    show ?thesis
    proof (cases "b - a < - pi")
      case True
      then have "shortestAngleDelta from to = b - a + 2 * pi * of_int 1" unfolding d using False by simp
      then show ?thesis using that by blast
    next
      case F2: False
      then have "shortestAngleDelta from to = b - a + 2 * pi * of_int 0" unfolding d using False by simp
      then show ?thesis using that by blast
    qed
  qed
  have "from + shortestAngleDelta from to = to + 2 * pi * of_int (kb - ka + m)"
    unfolding m ka kb by (simp add: algebra_simps)
  then have "normalizeAngle0ToTau (from + shortestAngleDelta from to)
      = normalizeAngle0ToTau (to + 2 * pi * of_int (kb - ka + m))"
    by (simp only:)
  also have "\<dots> = normalizeAngle0ToTau to"
    by (rule normalizeAngle0ToTau_cong)
  finally have "normalizeAngle0ToTau (from + shortestAngleDelta from to) = normalizeAngle0ToTau to" .
  with rng show ?thesis by simp
qed


subsection \<open>The tween engine\<close>






lemma elapsedFraction_running: "0 < dur \<Longrightarrow> now < t0 + dur \<Longrightarrow> elapsedFraction now t0 dur < 1"
  by (simp add: elapsedFraction_def min_def field_simps)

























subsection \<open>Frame conditions and tween replacement\<close>

lemma onlyAnimated_refl: "onlyAnimated s s"
  by (simp add: onlyAnimated_def)

lemma onlyAnimated_trans:
  "onlyAnimated s s' \<Longrightarrow> onlyAnimated s' s'' \<Longrightarrow> onlyAnimated s s''"
  by (simp add: onlyAnimated_def)

lemma eraseAnimated_fields:
  "cubesByName (eraseAnimated s) = cubesByName s"
  "allFaceMeshes (eraseAnimated s) = allFaceMeshes s"
  "faceMeshUUIDs (eraseAnimated s) = faceMeshUUIDs s"
  "bodyMaterialUUIDs (eraseAnimated s) = bodyMaterialUUIDs s"
  "leva (eraseAnimated s) = leva s"
  "modelCenter (eraseAnimated s) = modelCenter s"
  "defaultPose (eraseAnimated s) = defaultPose s"
  "currentlyExpandedCubeName (eraseAnimated s) = currentlyExpandedCubeName s"
  "currentlyClickedFace (eraseAnimated s) = currentlyClickedFace s"
  "selectedCubeNameRef (eraseAnimated s) = selectedCubeNameRef s"
  "lastSelectionAt (eraseAnimated s) = lastSelectionAt s"
  "objectScale (eraseAnimated s) = objectScale s"
  "camAzimuth (eraseAnimated s) = camAzimuth s"
  "camPolar (eraseAnimated s) = camPolar s"
  "camDistance (eraseAnimated s) = camDistance s"
  "camFov (eraseAnimated s) = camFov s"
  by (simp_all add: eraseAnimated_def)

lemma onlyAnimated_scene:
  assumes "onlyAnimated s s'"
  shows "cubesByName s' = cubesByName s" "allFaceMeshes s' = allFaceMeshes s"
    "faceMeshUUIDs s' = faceMeshUUIDs s" "bodyMaterialUUIDs s' = bodyMaterialUUIDs s"
    "leva s' = leva s" "modelCenter s' = modelCenter s" "defaultPose s' = defaultPose s"
    "currentlyExpandedCubeName s' = currentlyExpandedCubeName s"
    "currentlyClickedFace s' = currentlyClickedFace s"
    "selectedCubeNameRef s' = selectedCubeNameRef s"
    "lastSelectionAt s' = lastSelectionAt s"
    "objectScale s' = objectScale s"
    "camAzimuth s' = camAzimuth s" "camPolar s' = camPolar s"
    "camDistance s' = camDistance s" "camFov s' = camFov s"
proof -
  have e: "eraseAnimated s' = eraseAnimated s"
    using assms by (simp add: onlyAnimated_def)
  show "cubesByName s' = cubesByName s" using arg_cong [OF e, of cubesByName] by (simp only: eraseAnimated_fields)
  show "allFaceMeshes s' = allFaceMeshes s" using arg_cong [OF e, of allFaceMeshes] by (simp only: eraseAnimated_fields)
  show "faceMeshUUIDs s' = faceMeshUUIDs s" using arg_cong [OF e, of faceMeshUUIDs] by (simp only: eraseAnimated_fields)
  show "bodyMaterialUUIDs s' = bodyMaterialUUIDs s" using arg_cong [OF e, of bodyMaterialUUIDs] by (simp only: eraseAnimated_fields)
  show "leva s' = leva s" using arg_cong [OF e, of leva] by (simp only: eraseAnimated_fields)
  show "modelCenter s' = modelCenter s" using arg_cong [OF e, of modelCenter] by (simp only: eraseAnimated_fields)
  show "defaultPose s' = defaultPose s" using arg_cong [OF e, of defaultPose] by (simp only: eraseAnimated_fields)
  show "currentlyExpandedCubeName s' = currentlyExpandedCubeName s" using arg_cong [OF e, of currentlyExpandedCubeName] by (simp only: eraseAnimated_fields)
  show "currentlyClickedFace s' = currentlyClickedFace s" using arg_cong [OF e, of currentlyClickedFace] by (simp only: eraseAnimated_fields)
  show "selectedCubeNameRef s' = selectedCubeNameRef s" using arg_cong [OF e, of selectedCubeNameRef] by (simp only: eraseAnimated_fields)
  show "lastSelectionAt s' = lastSelectionAt s" using arg_cong [OF e, of lastSelectionAt] by (simp only: eraseAnimated_fields)
  show "objectScale s' = objectScale s" using arg_cong [OF e, of objectScale] by (simp only: eraseAnimated_fields)
  show "camAzimuth s' = camAzimuth s" using arg_cong [OF e, of camAzimuth] by (simp only: eraseAnimated_fields)
  show "camPolar s' = camPolar s" using arg_cong [OF e, of camPolar] by (simp only: eraseAnimated_fields)
  show "camDistance s' = camDistance s" using arg_cong [OF e, of camDistance] by (simp only: eraseAnimated_fields)
  show "camFov s' = camFov s" using arg_cong [OF e, of camFov] by (simp only: eraseAnimated_fields)
qed

lemma onlyAnimated_fold:
  assumes "\<And>x t. onlyAnimated t (g x t)"
  shows "onlyAnimated s (fold g xs s)"
proof (induction xs arbitrary: s)
  case Nil
  show ?case by (simp add: onlyAnimated_refl)
next
  case (Cons x xs)
  have "onlyAnimated s (g x s)" by (rule assms)
  moreover have "onlyAnimated (g x s) (fold g xs (g x s))" by (rule Cons.IH)
  ultimately show ?case by (simp add: onlyAnimated_trans)
qed

lemma prepareFaceForFade_onlyAnimated: "onlyAnimated s (prepareFaceForFade mesh s)"
  by (simp add: prepareFaceForFade_def onlyAnimated_def eraseAnimated_def)

lemma animateOpacity_onlyAnimated: "onlyAnimated s (animateOpacity mesh to dur now s)"
  by (simp add: animateOpacity_def prepareFaceForFade_def onlyAnimated_def eraseAnimated_def Let_def)

lemma setFaceGlow_onlyAnimated: "onlyAnimated s (setFaceGlow mesh s)"
  by (simp add: setFaceGlow_def prepareFaceForFade_def onlyAnimated_def eraseAnimated_def Let_def)

lemma removeFaceGlow_onlyAnimated: "onlyAnimated s (removeFaceGlow mesh s)"
  by (simp add: removeFaceGlow_def onlyAnimated_def eraseAnimated_def)

lemma animateScale_onlyAnimated: "onlyAnimated s (animateScale obj to bounce dur now s)"
  by (simp add: animateScale_def onlyAnimated_def eraseAnimated_def Let_def)

lemma animateCameraToPreset_onlyAnimated:
  "onlyAnimated s (animateCameraToPreset p dur f now s)"
  by (simp add: animateCameraToPreset_def onlyAnimated_def eraseAnimated_def Let_def
      split: option.splits)





lemma animateCameraToPreset_inv:
  "tweenRegistryInv s \<Longrightarrow> tweenRegistryInv (animateCameraToPreset p dur f now s)"
  by (simp add: animateCameraToPreset_def Let_def tweenRegistryInv_def split: option.splits)


lemma animateScale_lookup:
  "map_of (scaleTweens (animateScale obj to bounce dur now s)) (uuid obj) =
     Some \<lparr>sc_obj = uuid obj, sc_from = objectScale s (uuid obj), sc_bounce = bounce,
           sc_to = to, sc_t0 = now, sc_dur = dur\<rparr>"
  by (simp add: animateScale_def Let_def update_conv')

lemma animateCameraToPreset_tween:
  assumes "controls s = Some c"
  shows "\<exists>tw. cameraTween (animateCameraToPreset p dur f now s) = Some tw \<and>
           cm_t0 tw = now \<and> cm_dur tw = dur \<and>
           cm_fromAz tw = camAzimuth s \<and> cm_dAz tw = shortestAngleDelta (camAzimuth s) (azimuth p) \<and>
           cm_fromPol tw = camPolar s \<and> cm_toPol tw = polar p \<and>
           cm_fromDist tw = camDistance s \<and> cm_toDist tw = distance p \<and>
           cm_fromFov tw = camFov s \<and>
           cm_toFov tw = (case f of Some v \<Rightarrow> v | None \<Rightarrow> camFov s)"
  using assms by (simp add: animateCameraToPreset_def Let_def)




subsection \<open>Reset\<close>

lemma fold_field:
  assumes "\<And>x t. h (g x t) = h t"
  shows "h (fold g xs s) = h s"
  by (induction xs arbitrary: s) (simp_all add: assms)

lemma fold_preserved:
  assumes "\<And>x t. P t \<Longrightarrow> P (g x t)" "P s"
  shows "P (fold g xs s)"
  using assms(2) by (induction xs arbitrary: s) (simp_all add: assms(1))

lemma fold_established:
  assumes pres: "\<And>y t. P x t \<Longrightarrow> P x (g y t)"
    and est: "\<And>t. P x (g x t)"
    and mem: "x \<in> set xs"
  shows "P x (fold g xs s)"
  using mem
proof (induction xs arbitrary: s)
  case Nil
  then show ?case by simp
next
  case (Cons y ys)
  show ?case
  proof (cases "x \<in> set ys")
    case True
    then show ?thesis using Cons.IH by simp
  next
    case False
    with Cons.prems have "y = x" by simp
    then have "P x (g y s)" using est by simp
    then have "P x (fold g ys (g y s))"
      by (rule fold_preserved [where P = "P x", rotated]) (rule pres)
    then show ?thesis by simp
  qed
qed

lemma animateScale_scaleTarget:
  "scaleTarget to bounce now (uuid obj) (animateScale obj to bounce 260 now s)"
  by (simp add: scaleTarget_def animateScale_lookup)

lemma animateScale_scaleTarget_other:
  "i \<noteq> uuid obj \<Longrightarrow> scaleTarget to bounce now i s \<Longrightarrow>
   scaleTarget to bounce now i (animateScale obj to' bounce' d now' s)"
  by (simp add: scaleTarget_def animateScale_def Let_def update_conv')

lemma animateScale_fields:
  "opacityTweens (animateScale obj to bounce d now s) = opacityTweens s"
  "emphasis (animateScale obj to bounce d now s) = emphasis s"
  "cameraTween (animateScale obj to bounce d now s) = cameraTween s"
  "materialOpacity (animateScale obj to bounce d now s) = materialOpacity s"
  "fadePrepared (animateScale obj to bounce d now s) = fadePrepared s"
  "controls (animateScale obj to bounce d now s) = controls s"
  by (simp_all add: animateScale_def Let_def)

lemma animateOpacity_fields:
  "scaleTweens (animateOpacity mesh to d now s) = scaleTweens s"
  "cameraTween (animateOpacity mesh to d now s) = cameraTween s"
  "controls (animateOpacity mesh to d now s) = controls s"
  by (simp_all add: animateOpacity_def prepareFaceForFade_def Let_def)

lemma removeFaceGlow_fields:
  "scaleTweens (removeFaceGlow mesh s) = scaleTweens s"
  "opacityTweens (removeFaceGlow mesh s) = opacityTweens s"
  "cameraTween (removeFaceGlow mesh s) = cameraTween s"
  "controls (removeFaceGlow mesh s) = controls s"
  "materialOpacity (removeFaceGlow mesh s) = materialOpacity s"
  "fadePrepared (removeFaceGlow mesh s) = fadePrepared s"
  by (simp_all add: removeFaceGlow_def)


lemma animateOpacity_opacityTarget:
  "hasMaterial mesh \<Longrightarrow> opacityTarget to now (uuid mesh) (animateOpacity mesh to 250 now s)"
  by (simp add: opacityTarget_def animateOpacity_def Let_def update_conv')

lemma animateOpacity_opacityTarget_other:
  "i \<noteq> uuid mesh \<Longrightarrow> opacityTarget to now i s \<Longrightarrow>
   opacityTarget to now i (animateOpacity mesh to' d now' s)"
  by (simp add: opacityTarget_def animateOpacity_def prepareFaceForFade_def Let_def update_conv')

lemma animateOpacity_emphasis_off:
  "\<not> emphasis s i \<Longrightarrow> \<not> emphasis (animateOpacity mesh to d now s) i"
  by (simp add: animateOpacity_def prepareFaceForFade_def Let_def)

lemma removeFaceGlow_emphasis:
  "hasMaterial mesh \<Longrightarrow> \<not> emphasis (removeFaceGlow mesh s) (uuid mesh)"
  "\<not> emphasis s i \<Longrightarrow> \<not> emphasis (removeFaceGlow mesh s) i"
  by (simp_all add: removeFaceGlow_def)

text \<open>What \<^verbatim>\<open>resetAllCubes\<close> leaves in the registry.\<close>

lemma resetAllCubes_scale:
  assumes "(n, cube) \<in> set (cubesByName s)"
  shows "scaleTarget 1 0.8 now (uuid cube) (resetAllCubes now s)"
proof -
  let ?g = "\<lambda>(n, cube). animateScale cube 1.0 0.8 260 now"
  let ?s1 = "fold ?g (cubesByName s) s"
  have "scaleTarget 1 0.8 now (uuid (snd (n, cube))) ?s1"
  proof (rule fold_established [where P = "\<lambda>x. scaleTarget 1 0.8 now (uuid (snd x))", OF _ _ assms])
    fix y t assume "scaleTarget 1 0.8 now (uuid (snd (n, cube))) t"
    then show "scaleTarget 1 0.8 now (uuid (snd (n, cube))) (?g y t)"
      using animateScale_scaleTarget [of 1 "0.8" now "snd y" t]
        animateScale_scaleTarget_other [of "uuid cube" "snd y" 1 "0.8" now t 1 "0.8" 260 now]
      by (cases y; cases "uuid cube = uuid (snd y)") auto
  next
    fix t show "scaleTarget 1 0.8 now (uuid (snd (n, cube))) (?g (n, cube) t)"
      using animateScale_scaleTarget [of 1 "0.8" now cube t] by simp
  qed
  then have "scaleTarget 1 0.8 now (uuid cube) ?s1" by simp
  then have "scaleTarget 1 0.8 now (uuid cube)
      (fold (\<lambda>face s'. removeFaceGlow face (animateOpacity face 1.0 250 now s'))
         (allFaceMeshes ?s1) ?s1)"
    by (rule fold_preserved [where P = "scaleTarget 1 0.8 now (uuid cube)", rotated])
       (simp add: scaleTarget_def removeFaceGlow_fields animateOpacity_fields)
  then show ?thesis by (simp add: resetAllCubes_def Let_def)
qed

lemma resetAllCubes_faces:
  assumes "face \<in> set (allFaceMeshes s)" "hasMaterial face"
  shows "opacityTarget 1 now (uuid face) (resetAllCubes now s) \<and>
         \<not> emphasis (resetAllCubes now s) (uuid face)"
proof -
  let ?g = "\<lambda>(n, cube). animateScale cube 1.0 0.8 260 now"
  let ?s1 = "fold ?g (cubesByName s) s"
  let ?h = "\<lambda>face s'. removeFaceGlow face (animateOpacity face 1.0 250 now s')"
  have faces: "allFaceMeshes ?s1 = allFaceMeshes s"
    by (rule onlyAnimated_scene(2) [OF onlyAnimated_fold])
       (simp add: animateScale_onlyAnimated split: prod.splits)
  let ?P = "\<lambda>x t. hasMaterial x \<longrightarrow> opacityTarget 1 now (uuid x) t \<and> \<not> emphasis t (uuid x)"
  have "?P face (fold ?h (allFaceMeshes s) ?s1)"
  proof (rule fold_established [where P = ?P, OF _ _ assms(1)])
    fix y t assume a: "?P face t"
    show "?P face (?h y t)"
    proof (cases "uuid face = uuid y")
      case True
      then show ?thesis
        using a animateOpacity_opacityTarget [of y 1 now t] removeFaceGlow_emphasis(1) [of y]
        by (cases "hasMaterial y")
           (auto simp: opacityTarget_def removeFaceGlow_fields animateOpacity_def
              removeFaceGlow_def)
    next
      case False
      then show ?thesis
        using a animateOpacity_opacityTarget_other [of "uuid face" y 1 now t 1 250 now]
          animateOpacity_emphasis_off [of t "uuid face" y 1 250 now]
          removeFaceGlow_emphasis(2)
        by (auto simp: opacityTarget_def removeFaceGlow_fields)
    qed
  next
    fix t show "?P face (?h face t)"
      using animateOpacity_opacityTarget [of face 1 now t] removeFaceGlow_emphasis(1) [of face]
      by (auto simp: opacityTarget_def removeFaceGlow_fields)
  qed
  then show ?thesis using assms(2) faces by (simp add: resetAllCubes_def Let_def)
qed

lemma resetAllCubes_onlyAnimated: "onlyAnimated s (resetAllCubes now s)"
  unfolding resetAllCubes_def Let_def
  by (rule onlyAnimated_trans [OF onlyAnimated_fold onlyAnimated_fold])
     (auto intro: onlyAnimated_trans animateOpacity_onlyAnimated removeFaceGlow_onlyAnimated
        animateScale_onlyAnimated split: prod.splits)

lemma resetAllCubes_camera:
  "cameraTween (resetAllCubes now s) = cameraTween s"
  unfolding resetAllCubes_def Let_def
  by (simp add: fold_field [where h = cameraTween] removeFaceGlow_fields animateOpacity_fields
      animateScale_fields split: prod.splits)


text \<open>
  C7: the Reset transition \<^verbatim>\<open>returnToDefault\<close> leaves, for every block of \<^verbatim>\<open>cubesByName\<close>,
  a scale tween issued now with target 1; for every face (with a material, as every mesh
  has) an opacity tween issued now with target 1 and the emphasis cleared; when the orbit
  controls are mounted, a camera tween from the current pose whose end azimuth is
  congruent to the stored default azimuth, whose polar angle and distance targets are
  those of the stored default pose, and whose field-of-view target is the base value
  \<^verbatim>\<open>values.cameraFov\<close>; and it clears the selection state.
\<close>

theorem returnToDefault_resets:
  "(\<forall>p\<in>set (cubesByName s).
      \<exists>tw. map_of (scaleTweens (returnToDefault now s)) (uuid (snd p)) = Some tw \<and>
           sc_to tw = 1 \<and> sc_t0 tw = now) \<and>
   (\<forall>face\<in>set (allFaceMeshes s). hasMaterial face \<longrightarrow>
      (\<exists>tw. map_of (opacityTweens (returnToDefault now s)) (uuid face) = Some tw \<and>
            op_to tw = 1 \<and> op_t0 tw = now) \<and>
      \<not> emphasis (returnToDefault now s) (uuid face)) \<and>
   (controls s \<noteq> None \<longrightarrow>
      (\<exists>tw. cameraTween (returnToDefault now s) = Some tw \<and> cm_t0 tw = now \<and>
            cm_fromAz tw = camAzimuth s \<and>
            normalizeAngle0ToTau (cm_fromAz tw + cm_dAz tw) =
              normalizeAngle0ToTau (azimuth (defaultPose s)) \<and>
            cm_toPol tw = polar (defaultPose s) \<and>
            cm_toDist tw = distance (defaultPose s) \<and>
            cm_toFov tw = cameraFov (leva s))) \<and>
   selectedCubeNameRef (returnToDefault now s) = None \<and>
   currentlyClickedFace (returnToDefault now s) = None \<and>
   currentlyExpandedCubeName (returnToDefault now s) = None \<and>
   lastSelectionAt (returnToDefault now s) = - 1"
proof -
  let ?s1 = "animateCameraToPreset (defaultPose s) 900 (Some (cameraFov (leva s))) now s"
  let ?s2 = "resetAllCubes now ?s1"
  have oa: "onlyAnimated s ?s1" by (rule animateCameraToPreset_onlyAnimated)
  have cubes: "cubesByName ?s1 = cubesByName s" and faces: "allFaceMeshes ?s1 = allFaceMeshes s"
    using onlyAnimated_scene [OF oa] by simp_all
  have f: "scaleTweens (returnToDefault now s) = scaleTweens ?s2"
    "opacityTweens (returnToDefault now s) = opacityTweens ?s2"
    "emphasis (returnToDefault now s) = emphasis ?s2"
    "cameraTween (returnToDefault now s) = cameraTween ?s1"
    by (simp_all add: returnToDefault_def Let_def resetAllCubes_camera)
  have a: "\<forall>p\<in>set (cubesByName s).
      \<exists>tw. map_of (scaleTweens (returnToDefault now s)) (uuid (snd p)) = Some tw \<and>
           sc_to tw = 1 \<and> sc_t0 tw = now"
  proof
    fix p assume "p \<in> set (cubesByName s)"
    then have "(fst p, snd p) \<in> set (cubesByName ?s1)" using cubes by simp
    from resetAllCubes_scale [OF this, of now]
    show "\<exists>tw. map_of (scaleTweens (returnToDefault now s)) (uuid (snd p)) = Some tw \<and>
           sc_to tw = 1 \<and> sc_t0 tw = now"
      unfolding f scaleTarget_def by blast
  qed
  have b: "\<forall>face\<in>set (allFaceMeshes s). hasMaterial face \<longrightarrow>
      (\<exists>tw. map_of (opacityTweens (returnToDefault now s)) (uuid face) = Some tw \<and>
            op_to tw = 1 \<and> op_t0 tw = now) \<and>
      \<not> emphasis (returnToDefault now s) (uuid face)"
  proof (intro ballI impI)
    fix face assume "face \<in> set (allFaceMeshes s)" and m: "hasMaterial face"
    then have "face \<in> set (allFaceMeshes ?s1)" using faces by simp
    from resetAllCubes_faces [OF this m, of now]
    show "(\<exists>tw. map_of (opacityTweens (returnToDefault now s)) (uuid face) = Some tw \<and>
            op_to tw = 1 \<and> op_t0 tw = now) \<and>
      \<not> emphasis (returnToDefault now s) (uuid face)"
      unfolding f opacityTarget_def by blast
  qed
  have c: "controls s \<noteq> None \<longrightarrow>
      (\<exists>tw. cameraTween (returnToDefault now s) = Some tw \<and> cm_t0 tw = now \<and>
            cm_fromAz tw = camAzimuth s \<and>
            normalizeAngle0ToTau (cm_fromAz tw + cm_dAz tw) =
              normalizeAngle0ToTau (azimuth (defaultPose s)) \<and>
            cm_toPol tw = polar (defaultPose s) \<and>
            cm_toDist tw = distance (defaultPose s) \<and>
            cm_toFov tw = cameraFov (leva s))"
  proof
    assume "controls s \<noteq> None"
    then obtain c where "controls s = Some c" by blast
    from animateCameraToPreset_tween [OF this, of "defaultPose s" 900 "Some (cameraFov (leva s))" now]
    show "\<exists>tw. cameraTween (returnToDefault now s) = Some tw \<and> cm_t0 tw = now \<and>
            cm_fromAz tw = camAzimuth s \<and>
            normalizeAngle0ToTau (cm_fromAz tw + cm_dAz tw) =
              normalizeAngle0ToTau (azimuth (defaultPose s)) \<and>
            cm_toPol tw = polar (defaultPose s) \<and>
            cm_toDist tw = distance (defaultPose s) \<and>
            cm_toFov tw = cameraFov (leva s)"
      unfolding f using shortestAngleDelta_bounds_cong by auto
  qed
  have d: "selectedCubeNameRef (returnToDefault now s) = None \<and>
   currentlyClickedFace (returnToDefault now s) = None \<and>
   currentlyExpandedCubeName (returnToDefault now s) = None \<and>
   lastSelectionAt (returnToDefault now s) = - 1"
    by (simp add: returnToDefault_def Let_def)
  from a b c d show ?thesis by blast
qed

text \<open>The theorem at the example state in which a face is selected.\<close>

theorem returnToDefault_resets_witness:
  "(\<exists>tw. map_of (scaleTweens (returnToDefault 5000 exampleSelected)) 1 = Some tw \<and>
         sc_to tw = 1 \<and> sc_t0 tw = 5000) \<and>
   (\<exists>tw. map_of (scaleTweens (returnToDefault 5000 exampleSelected)) 2 = Some tw \<and>
         sc_to tw = 1 \<and> sc_t0 tw = 5000) \<and>
   (\<exists>tw. map_of (opacityTweens (returnToDefault 5000 exampleSelected)) 12 = Some tw \<and>
         op_to tw = 1 \<and> op_t0 tw = 5000) \<and>
   \<not> emphasis (returnToDefault 5000 exampleSelected) 11 \<and>
   (\<exists>tw. cameraTween (returnToDefault 5000 exampleSelected) = Some tw \<and>
         cm_toPol tw = 2.051 \<and> cm_toDist tw = 20 \<and> cm_toFov tw = 45) \<and>
   selectedCubeNameRef (returnToDefault 5000 exampleSelected) = None \<and>
   currentlyClickedFace (returnToDefault 5000 exampleSelected) = None"
proof -
  have c: "cubesByName exampleSelected =
      [(''btm_block_1'', cubeOne), (''mid_block_2'', cubeTwo), (''top_block_5'', cubeHome)]"
    and f: "allFaceMeshes exampleSelected = [faceA, faceB, faceC, faceHome]"
    and k: "controls exampleSelected \<noteq> None"
    and p: "defaultPose exampleSelected = \<lparr>azimuth = - 2.983, polar = 2.051, distance = 20\<rparr>"
    and l: "cameraFov (leva exampleSelected) = 45"
    by (simp_all add: exampleSelected_def exampleApp_def exampleLeva_def)
  have m: "hasMaterial faceA" "hasMaterial faceB" "uuid faceA = 11" "uuid faceB = 12"
    "uuid cubeOne = 1" "uuid cubeTwo = 2"
    by (simp_all add: hasMaterial_def faceA_def faceB_def cubeOne_def cubeTwo_def)
  show ?thesis
    using returnToDefault_resets [of exampleSelected 5000] k m
    unfolding c f p l by auto
qed

subsection \<open>Selection state machine\<close>

lemma findCubeName_key:
  "findCubeName cubes obj = Some n \<Longrightarrow> map_of cubes n \<noteq> None"
  by (induction cubes obj rule: findCubeName.induct) (auto split: if_splits option.splits)

lemma findCubeName_chain:
  "findCubeName cubes obj = Some n \<Longrightarrow> list_ex (\<lambda>a. name a = n) (ancestorChain obj)"
  by (induction cubes obj rule: findCubeName.induct) (auto split: if_splits option.splits)

lemma scaleAllCubes_onlyAnimated: "onlyAnimated s (scaleAllCubes c now s)"
  unfolding scaleAllCubes_def
  by (rule onlyAnimated_fold) (simp add: animateScale_onlyAnimated split: prod.splits)

lemma scaleAllCubes_fields:
  "opacityTweens (scaleAllCubes c now s) = opacityTweens s"
  "emphasis (scaleAllCubes c now s) = emphasis s"
  "cameraTween (scaleAllCubes c now s) = cameraTween s"
  "materialOpacity (scaleAllCubes c now s) = materialOpacity s"
  "fadePrepared (scaleAllCubes c now s) = fadePrepared s"
  "controls (scaleAllCubes c now s) = controls s"
  unfolding scaleAllCubes_def
  by (rule fold_field; simp add: animateScale_fields split: prod.splits)+

lemma scaleAllCubes_issued:
  assumes "(n, cube) \<in> set (cubesByName s)"
  shows "\<exists>tw. map_of (scaleTweens (scaleAllCubes c now s)) (uuid cube) = Some tw \<and>
           sc_t0 tw = now \<and> sc_dur tw = 260"
proof -
  let ?P = "\<lambda>x (t::app). \<exists>tw. map_of (scaleTweens t) (uuid (snd x)) = Some tw \<and>
                     sc_t0 tw = now \<and> sc_dur tw = 260"
  have "?P (n, cube) (scaleAllCubes c now s)"
    unfolding scaleAllCubes_def
  proof (rule fold_established [where P = ?P, OF _ _ assms])
    fix y t assume "?P (n, cube) t"
    then show "?P (n, cube)
        ((case y of (n, cube) \<Rightarrow>
           if n = c then animateScale cube SELECTED_CUBE_SCALE SELECTED_CUBE_BOUNCE 260 now
           else animateScale cube DIMMED_CUBE_SCALE DIMMED_CUBE_BOUNCE 260 now) t)"
      by (cases y) (auto simp: animateScale_def Let_def update_conv')
  next
    fix t show "?P (n, cube)
        ((case (n, cube) of (n, cube) \<Rightarrow>
           if n = c then animateScale cube SELECTED_CUBE_SCALE SELECTED_CUBE_BOUNCE 260 now
           else animateScale cube DIMMED_CUBE_SCALE DIMMED_CUBE_BOUNCE 260 now) t)"
      by (auto simp: animateScale_def Let_def update_conv')
  qed
  then show ?thesis by simp
qed

lemma opacity_then_unglow_onlyAnimated:
  "onlyAnimated t (removeFaceGlow face (animateOpacity face v d now t))"
  by (rule onlyAnimated_trans [OF animateOpacity_onlyAnimated removeFaceGlow_onlyAnimated])

lemma opacity_then_glow_onlyAnimated:
  "onlyAnimated t (setFaceGlow face (animateOpacity face v d now t))"
  by (rule onlyAnimated_trans [OF animateOpacity_onlyAnimated setFaceGlow_onlyAnimated])

lemma faceSwitch_prefix_onlyAnimated:
  "onlyAnimated s (setFaceGlow clicked (animateOpacity clicked v d now
               (removeFaceGlow prev (animateOpacity prev v' d' now s))))"
  by (rule onlyAnimated_trans [OF opacity_then_unglow_onlyAnimated opacity_then_glow_onlyAnimated])

lemma faceSwitch_selection:
  "selectedCubeNameRef (faceSwitch prev clicked c now s) = Some c"
  "currentlyClickedFace (faceSwitch prev clicked c now s) = Some clicked"
  "lastSelectionAt (faceSwitch prev clicked c now s) = now"
  "currentlyExpandedCubeName (faceSwitch prev clicked c now s) = currentlyExpandedCubeName s"
  "cubesByName (faceSwitch prev clicked c now s) = cubesByName s"
  "bodyMaterialUUIDs (faceSwitch prev clicked c now s) = bodyMaterialUUIDs s"
  "allFaceMeshes (faceSwitch prev clicked c now s) = allFaceMeshes s"
proof -
  let ?s1 = "animateOpacity prev 0.2 250 now s"
  let ?s2 = "removeFaceGlow prev ?s1"
  let ?s3 = "animateOpacity clicked 1.0 250 now ?s2"
  let ?s4 = "setFaceGlow clicked ?s3"
  let ?s5 = "?s4\<lparr>selectedCubeNameRef := Some c, lastSelectionAt := now,
                  currentlyClickedFace := Some clicked\<rparr>"
  let ?s6 = "scaleAllCubes c now ?s5"
  let ?g = "\<lambda>face s'. if sameObject face clicked then s'
              else removeFaceGlow face (animateOpacity face DIMMED_FACE_OPACITY 250 now s')"
  have a4: "onlyAnimated s ?s4"
    by (rule faceSwitch_prefix_onlyAnimated)
  have a7: "onlyAnimated ?s5 (fold ?g (allFaceMeshes ?s6) ?s6)"
    by (rule onlyAnimated_trans [OF scaleAllCubes_onlyAnimated onlyAnimated_fold])
       (simp add: onlyAnimated_refl opacity_then_unglow_onlyAnimated)
  have e: "faceSwitch prev clicked c now s = fold ?g (allFaceMeshes ?s6) ?s6"
    by (simp add: faceSwitch_def Let_def)
  show "selectedCubeNameRef (faceSwitch prev clicked c now s) = Some c"
    "currentlyClickedFace (faceSwitch prev clicked c now s) = Some clicked"
    "lastSelectionAt (faceSwitch prev clicked c now s) = now"
    unfolding e using onlyAnimated_scene [OF a7] by simp_all
  show "currentlyExpandedCubeName (faceSwitch prev clicked c now s) = currentlyExpandedCubeName s"
    "cubesByName (faceSwitch prev clicked c now s) = cubesByName s"
    "bodyMaterialUUIDs (faceSwitch prev clicked c now s) = bodyMaterialUUIDs s"
    "allFaceMeshes (faceSwitch prev clicked c now s) = allFaceMeshes s"
    unfolding e using onlyAnimated_scene [OF a7] onlyAnimated_scene [OF a4] by simp_all
qed

lemma blockSwitch_inner_onlyAnimated:
  "onlyAnimated s
     (fold (\<lambda>face s'.
              let s'' = animateOpacity face
                          (if sameObject face clicked then 1.0 else DIMMED_FACE_OPACITY)
                          250 now s'
              in if sameObject face clicked then setFaceGlow face s''
                 else removeFaceGlow face s'')
        (allFaceMeshes (scaleAllCubes c now s)) (scaleAllCubes c now s))"
  by (rule onlyAnimated_trans [OF scaleAllCubes_onlyAnimated onlyAnimated_fold])
     (simp add: Let_def opacity_then_unglow_onlyAnimated opacity_then_glow_onlyAnimated)

lemma blockSwitch_selection:
  "selectedCubeNameRef (blockSwitch clicked c now s) = Some c"
  "currentlyClickedFace (blockSwitch clicked c now s) = Some clicked"
  "lastSelectionAt (blockSwitch clicked c now s) = now"
  "currentlyExpandedCubeName (blockSwitch clicked c now s) = Some c"
  "cubesByName (blockSwitch clicked c now s) = cubesByName s"
  "bodyMaterialUUIDs (blockSwitch clicked c now s) = bodyMaterialUUIDs s"
  "allFaceMeshes (blockSwitch clicked c now s) = allFaceMeshes s"
  using onlyAnimated_scene [OF blockSwitch_inner_onlyAnimated [of s clicked now c]]
  by (simp_all add: blockSwitch_def Let_def)


lemma faceSwitch_scale:
  assumes "(n, cube) \<in> set (cubesByName s)"
  shows "\<exists>tw. map_of (scaleTweens (faceSwitch prev clicked c now s)) (uuid cube) = Some tw \<and>
           sc_t0 tw = now \<and> sc_dur tw = 260"
proof -
  let ?s5 = "(setFaceGlow clicked (animateOpacity clicked 1.0 250 now
               (removeFaceGlow prev (animateOpacity prev 0.2 250 now s))))
             \<lparr>selectedCubeNameRef := Some c, lastSelectionAt := now,
              currentlyClickedFace := Some clicked\<rparr>"
  have oa: "onlyAnimated s (setFaceGlow clicked (animateOpacity clicked 1.0 250 now
               (removeFaceGlow prev (animateOpacity prev 0.2 250 now s))))"
    by (rule faceSwitch_prefix_onlyAnimated)
  have cubes: "cubesByName ?s5 = cubesByName s"
    using onlyAnimated_scene(1) [OF oa] by simp
  have "scaleTweens (faceSwitch prev clicked c now s) = scaleTweens (scaleAllCubes c now ?s5)"
    unfolding faceSwitch_def Let_def
    by (simp add: fold_field [where h = scaleTweens] animateOpacity_fields
        removeFaceGlow_fields)
  then show ?thesis using scaleAllCubes_issued [of n cube ?s5 c now] assms cubes by simp
qed


lemma applyFaceSelection_homeReset:
  assumes "findCubeName (cubesByName s) clicked = Some ''top_block_5''"
    and "\<not> isBodySurface clicked s" and "selectedCubeNameRef s = Some n" and "n \<noteq> []"
  shows "applyFaceSelection (Some clicked) True d now s = returnToDefault now s"
  using assms by (simp add: applyFaceSelection_def Let_def)

lemma applyFaceSelection_fromDefault:
  assumes "findCubeName (cubesByName s) clicked = Some c" and "c \<noteq> []"
    and "\<not> isBodySurface clicked s" and "selectedCubeNameRef s = None"
  shows "applyFaceSelection (Some clicked) a d now s =
           blockSwitch clicked c now
             (animateCameraToPreset
                (getCameraPoseForMesh clicked
                   (Some (case d of Some x \<Rightarrow> x | None \<Rightarrow> babylonClickDistance (leva s))) s)
                900 (Some CLICK_INTERACTION_FOV) now s)"
  using assms by (simp add: applyFaceSelection_def Let_def split: option.splits)

lemma applyFaceSelection_sameFace:
  assumes "findCubeName (cubesByName s) x = Some c" and "c \<noteq> []"
    and "\<not> isBodySurface x s" and "\<not> (a \<and> c = ''top_block_5'')"
    and "selectedCubeNameRef s = Some c" and "currentlyClickedFace s = Some x"
  shows "applyFaceSelection (Some x) a d now s =
           (if now - lastSelectionAt s < 500 then s else returnToDefault now s)"
  using assms by (auto simp: applyFaceSelection_def Let_def sameObject_def)

lemma applyFaceSelection_faceSwitch:
  assumes "findCubeName (cubesByName s) x = Some c" and "c \<noteq> []"
    and "\<not> isBodySurface x s" and "\<not> (a \<and> c = ''top_block_5'')"
    and "selectedCubeNameRef s = Some c" and "currentlyClickedFace s = Some prev"
    and "\<not> sameObject prev x"
  shows "applyFaceSelection (Some x) a d now s =
           faceSwitch prev x c now
             (animateCameraToPreset
                (getCameraPoseForMesh x
                   (Some (case d of Some v \<Rightarrow> v | None \<Rightarrow> babylonClickDistance (leva s))) s)
                900 (Some CLICK_INTERACTION_FOV) now s)"
  using assms by (auto simp: applyFaceSelection_def Let_def split: option.splits)

lemma applyFaceSelection_cases:
  assumes "findCubeName (cubesByName s) clicked = Some c"
  shows "applyFaceSelection (Some clicked) a d now s = s \<or>
         applyFaceSelection (Some clicked) a d now s = returnToDefault now s \<or>
         (\<exists>prev p. applyFaceSelection (Some clicked) a d now s =
             faceSwitch prev clicked c now
               (animateCameraToPreset p 900 (Some CLICK_INTERACTION_FOV) now s)) \<or>
         (\<exists>p. applyFaceSelection (Some clicked) a d now s =
             blockSwitch clicked c now
               (animateCameraToPreset p 900 (Some CLICK_INTERACTION_FOV) now s))"
  using assms by (auto simp: applyFaceSelection_def Let_def split: option.splits)


lemma example_home_face:
  "findCubeName (cubesByName exampleApp) faceHome = Some ''top_block_5''"
  "\<not> isBodySurface faceHome exampleApp"
  "selectedCubeNameRef exampleApp = None"
  "findCubeName (cubesByName exampleSelected) faceHome = Some ''top_block_5''"
  "\<not> isBodySurface faceHome exampleSelected"
  "selectedCubeNameRef exampleSelected = Some ''btm_block_1''"
  by (simp_all add: exampleSelected_def exampleApp_def faceHome_def cubeHome_def isBodySurface_def)




lemma applyFaceSelection_result:
  "applyFaceSelection clickedOpt a d now s = s \<or>
   applyFaceSelection clickedOpt a d now s = returnToDefault now s \<or>
   (\<exists>prev clicked c p. clickedOpt = Some clicked \<and>
       findCubeName (cubesByName s) clicked = Some c \<and>
       applyFaceSelection clickedOpt a d now s =
         faceSwitch prev clicked c now
           (animateCameraToPreset p 900 (Some CLICK_INTERACTION_FOV) now s)) \<or>
   (\<exists>clicked c p. clickedOpt = Some clicked \<and>
       findCubeName (cubesByName s) clicked = Some c \<and>
       applyFaceSelection clickedOpt a d now s =
         blockSwitch clicked c now
           (animateCameraToPreset p 900 (Some CLICK_INTERACTION_FOV) now s))"
proof (cases clickedOpt)
  case None
  then show ?thesis by (simp add: applyFaceSelection_def)
next
  case (Some clicked)
  show ?thesis
  proof (cases "findCubeName (cubesByName s) clicked")
    case None
    then show ?thesis using Some by (simp add: applyFaceSelection_def)
  next
    case c: (Some c)
    from applyFaceSelection_cases [OF c, of a d now] show ?thesis
      unfolding Some using c by blast
  qed
qed

lemma returnToDefault_scene:
  "cubesByName (returnToDefault now s) = cubesByName s"
  "bodyMaterialUUIDs (returnToDefault now s) = bodyMaterialUUIDs s"
  using onlyAnimated_scene [OF onlyAnimated_trans
      [OF animateCameraToPreset_onlyAnimated resetAllCubes_onlyAnimated]]
  by (simp_all add: returnToDefault_def Let_def)

lemma animateCameraToPreset_scene:
  "cubesByName (animateCameraToPreset p dur f now s) = cubesByName s"
  "bodyMaterialUUIDs (animateCameraToPreset p dur f now s) = bodyMaterialUUIDs s"
  using onlyAnimated_scene [OF animateCameraToPreset_onlyAnimated [of s p dur f now]]
  by simp_all

lemma applyFaceSelection_scene:
  "cubesByName (applyFaceSelection clickedOpt a d now s) = cubesByName s"
  "bodyMaterialUUIDs (applyFaceSelection clickedOpt a d now s) = bodyMaterialUUIDs s"
  using applyFaceSelection_result [of clickedOpt a d now s]
  by (auto simp: returnToDefault_scene animateCameraToPreset_scene faceSwitch_selection
      blockSwitch_selection)

text \<open>
  C4 (as amended): for a selectable face \<open>x\<close> of a block other than the home block (or
  with \<^verbatim>\<open>allowHomeReset\<close> off), selecting \<open>x\<close> again in the state Selected(block, x) is
  ignored, leaving the state as it is, when less than 500 ms have passed since the last
  selection, and is the Reset transition otherwise; so two selections of \<open>x\<close> less than
  500 ms apart from the Default state end in the state the first one produced,
  Selected(block, x).
\<close>

theorem repeated_selection_debounce:
  assumes "findCubeName (cubesByName s) x = Some c" and "c \<noteq> []"
    and "\<not> isBodySurface x s" and "\<not> (a \<and> c = ''top_block_5'')"
  shows
  "(selectedCubeNameRef s = Some c \<and> currentlyClickedFace s = Some x \<longrightarrow>
      applyFaceSelection (Some x) a d now s =
        (if now - lastSelectionAt s < 500 then s else returnToDefault now s)) \<and>
   (selectedCubeNameRef s = None \<and> t2 - t1 < 500 \<longrightarrow>
      selectedCubeNameRef (applyFaceSelection (Some x) a d t1 s) = Some c \<and>
      currentlyClickedFace (applyFaceSelection (Some x) a d t1 s) = Some x \<and>
      applyFaceSelection (Some x) a d' t2 (applyFaceSelection (Some x) a d t1 s) =
        applyFaceSelection (Some x) a d t1 s)"
proof (intro conjI impI)
  assume "selectedCubeNameRef s = Some c \<and> currentlyClickedFace s = Some x"
  then show "applyFaceSelection (Some x) a d now s =
        (if now - lastSelectionAt s < 500 then s else returnToDefault now s)"
    using applyFaceSelection_sameFace [OF assms] by blast
next
  assume h: "selectedCubeNameRef s = None \<and> t2 - t1 < 500"
  let ?r = "applyFaceSelection (Some x) a d t1 s"
  let ?s1 = "animateCameraToPreset
                (getCameraPoseForMesh x
                   (Some (case d of Some v \<Rightarrow> v | None \<Rightarrow> babylonClickDistance (leva s))) s)
                900 (Some CLICK_INTERACTION_FOV) t1 s"
  have e: "?r = blockSwitch x c t1 ?s1"
    using applyFaceSelection_fromDefault [OF assms(1,2,3)] h by simp
  show sel: "selectedCubeNameRef ?r = Some c" and fc: "currentlyClickedFace ?r = Some x"
    unfolding e by (simp_all add: blockSwitch_selection)
  have last: "lastSelectionAt ?r = t1"
    unfolding e by (simp add: blockSwitch_selection)
  have f: "findCubeName (cubesByName ?r) x = Some c" "\<not> isBodySurface x ?r"
    using assms(1,3) by (simp_all add: applyFaceSelection_scene isBodySurface_def)
  show "applyFaceSelection (Some x) a d' t2 ?r = ?r"
    using applyFaceSelection_sameFace [OF f(1) assms(2) f(2) assms(4) sel fc, of d' t2] h last
    by simp
qed

lemma example_faceA:
  "findCubeName (cubesByName exampleApp) faceA = Some ''btm_block_1''"
  "\<not> isBodySurface faceA exampleApp"
  "findCubeName (cubesByName exampleSelected) faceA = Some ''btm_block_1''"
  "\<not> isBodySurface faceA exampleSelected"
  "currentlyClickedFace exampleSelected = Some faceA"
  "lastSelectionAt exampleSelected = 1000"
  by (simp_all add: exampleSelected_def exampleApp_def faceA_def cubeOne_def isBodySurface_def)

text \<open>The theorem at the example scene, 100 ms and 500 ms after the selection.\<close>

theorem repeated_selection_debounce_witness:
  "applyFaceSelection (Some faceA) True None 1100 exampleSelected = exampleSelected \<and>
   applyFaceSelection (Some faceA) True None 1500 exampleSelected
     = returnToDefault 1500 exampleSelected \<and>
   selectedCubeNameRef (applyFaceSelection (Some faceA) True None 1000 exampleApp)
     = Some ''btm_block_1'' \<and>
   applyFaceSelection (Some faceA) True None 1100
       (applyFaceSelection (Some faceA) True None 1000 exampleApp)
     = applyFaceSelection (Some faceA) True None 1000 exampleApp"
  using repeated_selection_debounce [OF example_faceA(3) _ example_faceA(4), of True None 1100 1100 1000 None]
    repeated_selection_debounce [OF example_faceA(3) _ example_faceA(4), of True None 1500 1100 1000 None]
    repeated_selection_debounce [OF example_faceA(1) _ example_faceA(2), of True None 1100 1100 1000 None]
    example_home_face(3,6) example_faceA(5,6)
  by simp

text \<open>
  On the home block the debounce does not apply: from the Default state, two selections
  of its face 100 ms apart select the home block and then reset, because the home check
  runs before the same-face check.
\<close>

theorem home_face_repeat_resets_within_debounce:
  "selectedCubeNameRef (applyFaceSelection (Some faceHome) True None 1000 exampleApp)
     = Some ''top_block_5'' \<and>
   currentlyClickedFace (applyFaceSelection (Some faceHome) True None 1000 exampleApp)
     = Some faceHome \<and>
   applyFaceSelection (Some faceHome) True None 1100
       (applyFaceSelection (Some faceHome) True None 1000 exampleApp)
     = returnToDefault 1100 (applyFaceSelection (Some faceHome) True None 1000 exampleApp) \<and>
   selectedCubeNameRef
     (applyFaceSelection (Some faceHome) True None 1100
        (applyFaceSelection (Some faceHome) True None 1000 exampleApp)) = None"
proof -
  let ?r = "applyFaceSelection (Some faceHome) True None 1000 exampleApp"
  let ?s1 = "animateCameraToPreset
                (getCameraPoseForMesh faceHome
                   (Some (case None of Some x \<Rightarrow> x | None \<Rightarrow> babylonClickDistance (leva exampleApp)))
                   exampleApp)
                900 (Some CLICK_INTERACTION_FOV) 1000 exampleApp"
  have e: "?r = blockSwitch faceHome ''top_block_5'' 1000 ?s1"
    using applyFaceSelection_fromDefault [OF example_home_face(1) _ example_home_face(2,3)]
    by simp
  have sel: "selectedCubeNameRef ?r = Some ''top_block_5''"
    and fc: "currentlyClickedFace ?r = Some faceHome"
    unfolding e by (simp_all add: blockSwitch_selection)
  have f: "findCubeName (cubesByName ?r) faceHome = Some ''top_block_5''"
    "\<not> isBodySurface faceHome ?r"
    using example_home_face(1,2) by (simp_all add: applyFaceSelection_scene isBodySurface_def)
  have r: "applyFaceSelection (Some faceHome) True None 1100 ?r = returnToDefault 1100 ?r"
    using applyFaceSelection_homeReset [OF f sel] by simp
  have "selectedCubeNameRef (returnToDefault 1100 ?r) = None"
    by (simp add: returnToDefault_def Let_def)
  with sel fc r show ?thesis by simp
qed


text \<open>
  C10: \<^verbatim>\<open>applyFaceSelection\<close>, called with a mesh as every caller does, and
  \<^verbatim>\<open>returnToDefault\<close> keep the selection consistent: either no cube and no face are
  recorded, or the recorded cube name is a key of \<^verbatim>\<open>cubesByName\<close> and the recorded face
  is a mesh that has an object of that name on its chain of ancestors.
\<close>

theorem selection_stays_consistent:
  assumes "selectionConsistent s"
    and "case clickedOpt of None \<Rightarrow> True | Some c \<Rightarrow> isMesh c"
  shows "selectionConsistent (applyFaceSelection clickedOpt a d now s) \<and>
         selectionConsistent (returnToDefault now s)"
proof
  show ret: "selectionConsistent (returnToDefault now s)"
    by (simp add: selectionConsistent_def returnToDefault_def Let_def)
  let ?r = "applyFaceSelection clickedOpt a d now s"
  have sel: "selectionConsistent t"
    if "selectedCubeNameRef t = Some c" "currentlyClickedFace t = Some clicked"
      "cubesByName t = cubesByName s" "clickedOpt = Some clicked"
      "findCubeName (cubesByName s) clicked = Some c" for t clicked c
    using that assms(2) findCubeName_key [OF that(5)] findCubeName_chain [OF that(5)]
    by (simp add: selectionConsistent_def)
  from applyFaceSelection_result [of clickedOpt a d now s]
  consider "?r = s" | "?r = returnToDefault now s"
    | prev clicked c p where "clickedOpt = Some clicked"
        "findCubeName (cubesByName s) clicked = Some c"
        "?r = faceSwitch prev clicked c now
                (animateCameraToPreset p 900 (Some CLICK_INTERACTION_FOV) now s)"
    | clicked c p where "clickedOpt = Some clicked"
        "findCubeName (cubesByName s) clicked = Some c"
        "?r = blockSwitch clicked c now
                (animateCameraToPreset p 900 (Some CLICK_INTERACTION_FOV) now s)"
    by blast
  then show "selectionConsistent ?r"
  proof cases
    case 1
    then show ?thesis using assms(1) by simp
  next
    case 2
    then show ?thesis using ret by simp
  next
    case 3
    show ?thesis
      by (rule sel [OF _ _ _ 3(1,2)])
         (simp_all add: 3(3) faceSwitch_selection animateCameraToPreset_scene)
  next
    case 4
    show ?thesis
      by (rule sel [OF _ _ _ 4(1,2)])
         (simp_all add: 4(3) blockSwitch_selection animateCameraToPreset_scene)
  qed
qed

lemma example_consistent:
  "selectionConsistent exampleApp" "selectionConsistent exampleSelected" "isMesh faceB"
  by (simp_all add: selectionConsistent_def exampleSelected_def exampleApp_def faceA_def
      faceB_def cubeOne_def)

text \<open>The theorem at the example state in which a face is selected.\<close>

theorem selection_stays_consistent_witness:
  "selectionConsistent exampleSelected \<and>
   selectionConsistent (applyFaceSelection (Some faceB) True None 5000 exampleSelected) \<and>
   selectionConsistent (returnToDefault 5000 exampleSelected)"
  using selection_stays_consistent [OF example_consistent(2), of "Some faceB" True None 5000]
    example_consistent
  by simp

text \<open>
  C2 at a concrete input: in the state Selected(\<^verbatim>\<open>btm_block_1\<close>, \<open>faceA\<close>) with all tweens
  finished, selecting \<open>faceB\<close> of the same block keeps the block and records \<open>faceB\<close>,
  dims \<open>faceA\<close> towards 0.15 and raises \<open>faceB\<close> to 1 with the emphasis moved to it, and
  also issues a scale tween for every block: the selected block from 1.28 through 1.38
  back to 1.28, the others from 0.82 through 0.76 back to 0.82.
\<close>

lemma example_faceB:
  "findCubeName (cubesByName exampleSelected) faceB = Some ''btm_block_1''"
  "\<not> isBodySurface faceB exampleSelected"
  "\<not> sameObject faceA faceB"
  by (simp_all add: exampleSelected_def exampleApp_def faceA_def faceB_def cubeOne_def
      isBodySurface_def sameObject_def)

theorem face_switch_reissues_scale_tweens:
  "selectedCubeNameRef exampleSelected = Some ''btm_block_1'' \<and>
   currentlyClickedFace exampleSelected = Some faceA \<and>
   scaleTweens exampleSelected = [] \<and>
   selectedCubeNameRef (applyFaceSelection (Some faceB) True None 5000 exampleSelected)
     = Some ''btm_block_1'' \<and>
   currentlyClickedFace (applyFaceSelection (Some faceB) True None 5000 exampleSelected)
     = Some faceB \<and>
   map_of (scaleTweens (applyFaceSelection (Some faceB) True None 5000 exampleSelected)) 1
     = Some \<lparr>sc_obj = 1, sc_from = 1.28, sc_bounce = 1.38, sc_to = 1.28,
             sc_t0 = 5000, sc_dur = 260\<rparr> \<and>
   map_of (scaleTweens (applyFaceSelection (Some faceB) True None 5000 exampleSelected)) 2
     = Some \<lparr>sc_obj = 2, sc_from = 0.82, sc_bounce = 0.76, sc_to = 0.82,
             sc_t0 = 5000, sc_dur = 260\<rparr> \<and>
   map_of (opacityTweens (applyFaceSelection (Some faceB) True None 5000 exampleSelected)) 11
     = Some \<lparr>op_material = 11, op_from = 1, op_to = 0.15, op_t0 = 5000, op_dur = 250\<rparr> \<and>
   map_of (opacityTweens (applyFaceSelection (Some faceB) True None 5000 exampleSelected)) 12
     = Some \<lparr>op_material = 12, op_from = 0.15, op_to = 1, op_t0 = 5000, op_dur = 250\<rparr> \<and>
   emphasis (applyFaceSelection (Some faceB) True None 5000 exampleSelected) 12 \<and>
   \<not> emphasis (applyFaceSelection (Some faceB) True None 5000 exampleSelected) 11"
proof -
  define s1 where "s1 = animateCameraToPreset
      (getCameraPoseForMesh faceB
         (Some (case None of Some v \<Rightarrow> v | None \<Rightarrow> babylonClickDistance (leva exampleSelected)))
         exampleSelected)
      900 (Some CLICK_INTERACTION_FOV) 5000 exampleSelected"
  have e: "applyFaceSelection (Some faceB) True None 5000 exampleSelected
      = faceSwitch faceA faceB ''btm_block_1'' 5000 s1"
    unfolding s1_def
    by (rule applyFaceSelection_faceSwitch [OF example_faceB(1) _ example_faceB(2) _ _ _ example_faceB(3)])
       (simp_all add: exampleSelected_def exampleApp_def)
  have f: "cubesByName s1 =
        [(''btm_block_1'', cubeOne), (''mid_block_2'', cubeTwo), (''top_block_5'', cubeHome)]"
    "allFaceMeshes s1 = [faceA, faceB, faceC, faceHome]"
    "objectScale s1 = (\<lambda>i. if i = 1 then 1.28 else 0.82)"
    "materialOpacity s1 = (\<lambda>i. if i = 11 then 1 else 0.15)"
    "emphasis s1 = (\<lambda>i. i = 11)"
    "fadePrepared s1 = {11, 12, 21, 51}"
    "scaleTweens s1 = []" "opacityTweens s1 = []"
    unfolding s1_def
    by (simp_all add: animateCameraToPreset_def Let_def exampleSelected_def exampleApp_def)
  have u: "uuid faceA = 11" "uuid faceB = 12" "uuid faceC = 21" "uuid faceHome = 51"
    "uuid cubeOne = 1" "uuid cubeTwo = 2" "uuid cubeHome = 5"
    "hasMaterial faceA" "hasMaterial faceB" "hasMaterial faceC" "hasMaterial faceHome"
    by (simp_all add: faceA_def faceB_def faceC_def faceHome_def cubeOne_def cubeTwo_def
        cubeHome_def hasMaterial_def)
  have sc: "scaleTweens (faceSwitch faceA faceB ''btm_block_1'' 5000 s1) =
      [(1, \<lparr>sc_obj = 1, sc_from = 1.28, sc_bounce = 1.38, sc_to = 1.28,
             sc_t0 = 5000, sc_dur = 260\<rparr>),
       (2, \<lparr>sc_obj = 2, sc_from = 0.82, sc_bounce = 0.76, sc_to = 0.82,
             sc_t0 = 5000, sc_dur = 260\<rparr>),
       (5, \<lparr>sc_obj = 5, sc_from = 0.82, sc_bounce = 0.76, sc_to = 0.82,
             sc_t0 = 5000, sc_dur = 260\<rparr>)]"
    by (simp add: faceSwitch_def scaleAllCubes_def Let_def f u sameObject_def animateScale_def
        animateOpacity_def removeFaceGlow_def setFaceGlow_def prepareFaceForFade_def
        SELECTED_CUBE_SCALE_def SELECTED_CUBE_BOUNCE_def DIMMED_CUBE_SCALE_def
        DIMMED_CUBE_BOUNCE_def)
  have op: "opacityTweens (faceSwitch faceA faceB ''btm_block_1'' 5000 s1) =
      [(11, \<lparr>op_material = 11, op_from = 1, op_to = 0.15, op_t0 = 5000, op_dur = 250\<rparr>),
       (12, \<lparr>op_material = 12, op_from = 0.15, op_to = 1, op_t0 = 5000, op_dur = 250\<rparr>),
       (21, \<lparr>op_material = 21, op_from = 0.15, op_to = 0.15, op_t0 = 5000, op_dur = 250\<rparr>),
       (51, \<lparr>op_material = 51, op_from = 0.15, op_to = 0.15, op_t0 = 5000, op_dur = 250\<rparr>)]"
    by (simp add: faceSwitch_def scaleAllCubes_def Let_def f u sameObject_def animateScale_def
        animateOpacity_def removeFaceGlow_def setFaceGlow_def prepareFaceForFade_def
        DIMMED_FACE_OPACITY_def)
  have em: "emphasis (faceSwitch faceA faceB ''btm_block_1'' 5000 s1) = (\<lambda>i. i = 12)"
    by (simp add: faceSwitch_def scaleAllCubes_def Let_def f u sameObject_def animateScale_def
        animateOpacity_def removeFaceGlow_def setFaceGlow_def prepareFaceForFade_def fun_eq_iff)
  show ?thesis
    unfolding e sc op em
    by (simp add: faceSwitch_selection) (simp add: exampleSelected_def exampleApp_def)
qed

subsection \<open>Camera pose solver and gesture classifier\<close>




lemma lengthSq_nonneg: "0 \<le> lengthSq v"
  by (cases v) (simp add: lengthSq_def)
















end
